theory Spec2Isabelle
  imports Main "HOL-Library.Sublist"
begin

section \<open>The Manticore front end of the test harness (bin/mctest/__main__.py)\<close>

text \<open>
  The module binds the test primitives of a target binary to the symbolic executor.
  Its functions are embedded here one by one, with the names of the source. What the
  source does to the mutable execution state is explicit state passing, what it raises
  is a value of \<open>exn\<close>, and what it logs or reports is a list of events.
  The symbolic executor and its solver are not part of the module: their operations are
  the fields of the record \<open>engine\<close>, and the theorems about the harness hold for
  every engine.
\<close>

subsection \<open>Python strings and formatting\<close>

text \<open>\<open>OUR_TERMINATION_REASON = "I McTest'd it"\<close> (line 32).\<close>

definition OUR_TERMINATION_REASON :: string where
  "OUR_TERMINATION_REASON = ''I McTest'd it''"

text \<open>
  \<open>needle in haystack\<close> on Python strings: the needle occurs as a contiguous run of
  characters, at any position.
\<close>

fun str_contains :: "string \<Rightarrow> string \<Rightarrow> bool" where
  "str_contains needle [] = (needle = [])"
| "str_contains needle (c # cs) = (prefix needle (c # cs) \<or> str_contains needle cs)"

text \<open>\<open>"{}".format(n)\<close> for an integer: its decimal digits, with a sign when negative.\<close>

definition digit_char :: "nat \<Rightarrow> char" where
  "digit_char d = char_of (48 + d)"

fun str_nat :: "nat \<Rightarrow> string" where
  "str_nat n = (if n < 10 then [digit_char n] else str_nat (n div 10) @ [digit_char (n mod 10)])"

declare str_nat.simps [simp del]

definition str_int :: "int \<Rightarrow> string" where
  "str_int i = (if i < 0 then CHR ''-'' # str_nat (nat (- i)) else str_nat (nat i))"

subsection \<open>Values, exceptions and the execution state\<close>

text \<open>
  A value handled by the harness is a Python integer (\<open>int\<close> or \<open>long\<close>; \<open>bool\<close> is
  a subclass of \<open>int\<close>), a string (memory reads may give one character), or an expression
  of the engine: a symbolic variable with its label and width, or the equation that
  \<open>val == concrete_val\<close> builds when one side is an expression.
\<close>

datatype val =
    IntV int
  | BoolV bool
  | StrV string
  | SymV string nat
  | EqV val val

text \<open>\<open>isinstance(val, (int, long))\<close>\<close>

fun is_int_inst :: "val \<Rightarrow> bool" where
  "is_int_inst (IntV _) = True"
| "is_int_inst (BoolV _) = True"
| "is_int_inst _ = False"

text \<open>\<open>manticore.utils.helpers.issymbolic\<close>: the value is an expression object.\<close>

fun issymbolic :: "val \<Rightarrow> bool" where
  "issymbolic (SymV _ _) = True"
| "issymbolic (EqV _ _) = True"
| "issymbolic _ = False"

text \<open>Python's \<open>==\<close> on two values that are not expressions.\<close>

fun py_eq_concrete :: "val \<Rightarrow> val \<Rightarrow> bool" where
  "py_eq_concrete (IntV a) (IntV b) = (a = b)"
| "py_eq_concrete (IntV a) (BoolV b) = (a = (if b then 1 else 0))"
| "py_eq_concrete (BoolV a) (IntV b) = ((if a then 1 else 0) = b)"
| "py_eq_concrete (BoolV a) (BoolV b) = (a = b)"
| "py_eq_concrete (StrV a) (StrV b) = (a = b)"
| "py_eq_concrete _ _ = False"

text \<open>\<open>a == b\<close>: an expression as soon as one side is one, a Python bool otherwise.\<close>

definition py_eq :: "val \<Rightarrow> val \<Rightarrow> val" where
  "py_eq a b = (if issymbolic a \<or> issymbolic b then EqV a b else BoolV (py_eq_concrete a b))"

datatype exn =
    AssertionError
  | KeyError string
  | TerminateState string bool
  | EngineError string

text \<open>
  Modelled from the spec: the outcome that a test primitive records in the state's
  context. The context is kept by the base class \<open>McTest\<close> of the module \<open>common\<close>,
  which is not among the sources; the outcomes are the ones the specification lists for
  a primitive to record.
\<close>

datatype outcome = Pass | Fail | SoftFail | Abandon

text \<open>
  One execution path's state: the constraint set, the byte cells of memory, the program
  counter, the symbolic inputs created so far, and the context of the test. The field
  \<open>writes\<close> is the history of \<open>cpu.write_int\<close> calls, oldest first; it is kept
  to speak about the order of the writes.
\<close>

record mstate =
  constraints :: "val list"
  memory :: "int \<Rightarrow> val option"
  writes :: "(int \<times> val \<times> nat) list"
  input_symbols :: "val list"
  PC :: int
  recorded :: "outcome option"
  abandon_reason :: "val option"

text \<open>What the harness makes visible: log lines by level, and calls of \<open>mc.report()\<close>.\<close>

datatype event =
    LogError string
  | LogInfo string
  | Reported mstate

subsection \<open>done_test: the classifier of path terminations (lines 204-211)\<close>

text \<open>
  \<open>done_test(_, state, state_id, reason)\<close> is subscribed to the engine's
  \<open>will_terminate_state\<close>. When the tag does not occur in the reason it logs an error
  and returns; otherwise it calls \<open>mc.report()\<close> on the terminated state. The reason
  is the string that the engine passes.
\<close>

definition done_test :: "mstate \<Rightarrow> int \<Rightarrow> string \<Rightarrow> event list" where
  "done_test state state_id reason =
     (if \<not> str_contains OUR_TERMINATION_REASON reason
      then [LogError (''State '' @ str_int state_id @ '' terminated for unknown reason: '' @ reason)]
      else [Reported state])"

text \<open>Whether an event list holds a verdict, that is a call of \<open>mc.report()\<close>.\<close>

fun is_report :: "event \<Rightarrow> bool" where
  "is_report (Reported _) = True"
| "is_report _ = False"

definition emits_verdict :: "event list \<Rightarrow> bool" where
  "emits_verdict evs = list_ex is_report evs"

text \<open>A state with nothing in it, for concrete runs.\<close>

definition st0 :: mstate where
  "st0 = \<lparr> constraints = [], memory = (\<lambda>_. None), writes = [], input_symbols = [],
           PC = 0, recorded = None, abandon_reason = None \<rparr>"

subsection \<open>The engine\<close>

text \<open>
  The operations of the symbolic executor that the module calls on a state:
  \<open>state.solve_one(val)\<close>, \<open>state.solve_n(val)\<close> and
  \<open>state.solver.eval_upto(val, max_num)\<close> answer from the state's constraints and
  may raise; \<open>begin_test\<close> is the set-up of a test (the engine object for the state
  and the base class's \<open>begin_test\<close>), \<open>find_test_cases\<close> is the base class's
  enumeration of the tests, and \<open>run\<close> is \<open>m.run()\<close> with the hooks installed:
  the terminations the exploration fires, in order, each with its state identifier,
  reason and state, and the exception that ends the exploration early if there is one.
\<close>

record test_case =
  name :: string
  ea :: int

record engine =
  solve_one :: "val list \<Rightarrow> val \<Rightarrow> exn + val"
  solve_n :: "val list \<Rightarrow> val \<Rightarrow> exn + val"
  eval_upto :: "val list \<Rightarrow> val \<Rightarrow> int \<Rightarrow> exn + val list"
  begin_test :: "mstate \<Rightarrow> test_case \<Rightarrow> exn + mstate"
  run :: "mstate \<Rightarrow> (int \<times> string \<times> mstate) list \<times> exn option"
  find_test_cases :: "mstate \<Rightarrow> test_case list"
  exc_text :: "exn \<Rightarrow> string"







subsection \<open>MCoreTest: the execution context (lines 34-123)\<close>

text \<open>\<open>is_symbolic(self, val)\<close> (lines 45-46).\<close>

definition is_symbolic :: "val \<Rightarrow> bool" where
  "is_symbolic v = issymbolic v"

text \<open>\<open>assert len(val) == 1; ord(val[0])\<close>, as \<open>concretize\<close> does twice.\<close>

definition ord_of_char_str :: "string \<Rightarrow> exn + val" where
  "ord_of_char_str s = (case s of [c] \<Rightarrow> Inr (IntV (of_char c)) | _ \<Rightarrow> Inl AssertionError)"

text \<open>\<open>state.constrain(expr)\<close>: the expression joins the state's constraints.\<close>

definition constrain :: "mstate \<Rightarrow> val \<Rightarrow> mstate" where
  "constrain st e = st\<lparr>constraints := constraints st @ [e]\<rparr>"

text \<open>\<open>add_constraint(self, expr)\<close> (lines 107-111); it always returns \<open>True\<close>.\<close>

definition add_constraint :: "mstate \<Rightarrow> val \<Rightarrow> bool \<times> mstate" where
  "add_constraint st e = (True, if is_symbolic e then constrain st e else st)"

text \<open>\<open>concretize(self, val, constrain=False)\<close> (lines 77-91).\<close>

definition concretize :: "engine \<Rightarrow> mstate \<Rightarrow> val \<Rightarrow> bool \<Rightarrow> (exn + val) \<times> mstate" where
  "concretize eng st v constrain_flag =
     (if is_int_inst v then (Inr v, st)
      else case v of
        StrV s \<Rightarrow> (ord_of_char_str s, st)
      | _ \<Rightarrow>
        if \<not> is_symbolic v then (Inl AssertionError, st)
        else (case solve_one eng (constraints st) v of
            Inl e \<Rightarrow> (Inl e, st)
          | Inr answer \<Rightarrow>
              (case (case answer of StrV s \<Rightarrow> ord_of_char_str s | _ \<Rightarrow> Inr answer) of
                Inl e \<Rightarrow> (Inl e, st)
              | Inr concrete_val \<Rightarrow>
                  (Inr concrete_val,
                   if constrain_flag then snd (add_constraint st (py_eq v concrete_val)) else st))))"

text \<open>\<open>concretize_min(self, val, constrain=False)\<close> (lines 93-99).\<close>

definition concretize_min :: "engine \<Rightarrow> mstate \<Rightarrow> val \<Rightarrow> bool \<Rightarrow> (exn + val) \<times> mstate" where
  "concretize_min eng st v constrain_flag =
     (if is_int_inst v then (Inr v, st)
      else (case solve_n eng (constraints st) v of
          Inl e \<Rightarrow> (Inl e, st)
        | Inr concrete_val \<Rightarrow>
            (Inr concrete_val,
             if constrain_flag then snd (add_constraint st (py_eq v concrete_val)) else st)))"


text \<open>
  Modelled from the spec: \<open>api_assume\<close> of the base class \<open>McTest\<close> (module \<open>common\<close>,
  not among the sources), which \<open>hook_Assume\<close> calls. The specification gives it as
  \<open>add_constraint(expr)\<close> if \<open>expr\<close> is symbolic, else no-op.
\<close>

definition api_assume :: "mstate \<Rightarrow> val \<Rightarrow> mstate" where
  "api_assume st arg = (if is_symbolic arg then snd (add_constraint st arg) else st)"

text \<open>\<open>hook_Assume(state, arg)\<close> (lines 144-146).\<close>

definition hook_Assume :: "mstate \<Rightarrow> val \<Rightarrow> mstate" where
  "hook_Assume state arg = api_assume state arg"

text \<open>
  Modelled from the spec: \<open>pass_test\<close> of the base class \<open>McTest\<close> (module
  \<open>common\<close>, not among the sources), which the overriding method calls first through
  \<open>super\<close>. The specification has Pass record its outcome.
\<close>

definition McTest_pass_test :: "mstate \<Rightarrow> mstate" where
  "McTest_pass_test st = st\<lparr>recorded := Some Pass\<rparr>"

text \<open>
  Modelled from the spec: \<open>fail_test\<close> of the base class \<open>McTest\<close>, as above; Fail
  records its outcome.
\<close>

definition McTest_fail_test :: "mstate \<Rightarrow> mstate" where
  "McTest_fail_test st = st\<lparr>recorded := Some Fail\<rparr>"

text \<open>
  Modelled from the spec: \<open>abandon_test\<close> of the base class \<open>McTest\<close>, as above;
  Abandon records its outcome.
\<close>

definition McTest_abandon_test :: "mstate \<Rightarrow> mstate" where
  "McTest_abandon_test st = st\<lparr>recorded := Some Abandon\<rparr>"

text \<open>
  \<open>pass_test\<close>, \<open>fail_test\<close>, \<open>abandon_test\<close> of \<open>MCoreTest\<close> (lines 113-123): the base
  method, then \<open>raise TerminateState(OUR_TERMINATION_REASON, testcase=False)\<close>. The state
  keeps what the base method did to it.
\<close>

definition pass_test :: "mstate \<Rightarrow> (exn + unit) \<times> mstate" where
  "pass_test st = (Inl (TerminateState OUR_TERMINATION_REASON False), McTest_pass_test st)"

definition fail_test :: "mstate \<Rightarrow> (exn + unit) \<times> mstate" where
  "fail_test st = (Inl (TerminateState OUR_TERMINATION_REASON False), McTest_fail_test st)"

definition abandon_test :: "mstate \<Rightarrow> (exn + unit) \<times> mstate" where
  "abandon_test st = (Inl (TerminateState OUR_TERMINATION_REASON False), McTest_abandon_test st)"

text \<open>
  Modelled from the spec: the handler \<open>api_pass\<close> of the base class \<open>McTest\<close> (module
  \<open>common\<close>, not among the sources). By the specification's table, Pass records its
  outcome and requests termination, which is what \<open>pass_test\<close> does.
\<close>

definition api_pass :: "mstate \<Rightarrow> (exn + unit) \<times> mstate" where
  "api_pass st = pass_test st"

text \<open>
  Modelled from the spec: the handler \<open>api_fail\<close> of the base class; Fail records its
  outcome and requests termination with the same tag.
\<close>

definition api_fail :: "mstate \<Rightarrow> (exn + unit) \<times> mstate" where
  "api_fail st = fail_test st"

text \<open>
  Modelled from the spec: the handler \<open>api_abandon\<close> of the base class; Abandon records
  its outcome with the reason and requests termination with the tag.
\<close>

definition api_abandon :: "mstate \<Rightarrow> val \<Rightarrow> (exn + unit) \<times> mstate" where
  "api_abandon st reason = abandon_test (st\<lparr>abandon_reason := Some reason\<rparr>)"

text \<open>
  Modelled from the spec: the handler \<open>api_soft_fail\<close> of the base class; SoftFail
  records its outcome and does not terminate.
\<close>

definition api_soft_fail :: "mstate \<Rightarrow> (exn + unit) \<times> mstate" where
  "api_soft_fail st = (Inr (), st\<lparr>recorded := Some SoftFail\<rparr>)"

text \<open>\<open>hook_Pass\<close>, \<open>hook_Fail\<close>, \<open>hook_Abandon\<close>, \<open>hook_SoftFail\<close> (lines 173-191).\<close>

definition hook_Pass :: "mstate \<Rightarrow> (exn + unit) \<times> mstate" where
  "hook_Pass state = api_pass state"

definition hook_Fail :: "mstate \<Rightarrow> (exn + unit) \<times> mstate" where
  "hook_Fail state = api_fail state"

definition hook_Abandon :: "mstate \<Rightarrow> val \<Rightarrow> (exn + unit) \<times> mstate" where
  "hook_Abandon state reason = api_abandon state reason"

definition hook_SoftFail :: "mstate \<Rightarrow> (exn + unit) \<times> mstate" where
  "hook_SoftFail state = api_soft_fail state"

subsection \<open>make_symbolic_input: the input injector (lines 126-135)\<close>

text \<open>
  \<open>state.new_symbolic_value(nbits, label)\<close> creates the symbolic variable of that
  label and width and records it among the state's input symbols.
  \<open>state.cpu.write_int(where, expression, size)\<close> is only called with size 8 here:
  it stores the value in the byte cell at \<open>where\<close>.
\<close>

definition new_symbolic_value :: "mstate \<Rightarrow> nat \<Rightarrow> string \<Rightarrow> val \<times> mstate" where
  "new_symbolic_value st nbits label =
     (SymV label nbits, st\<lparr>input_symbols := input_symbols st @ [SymV label nbits]\<rparr>)"

definition write_int :: "mstate \<Rightarrow> int \<Rightarrow> val \<Rightarrow> nat \<Rightarrow> mstate" where
  "write_int st addr v nbits =
     st\<lparr>memory := (memory st)(addr := Some v), writes := writes st @ [(addr, v, nbits)]\<rparr>"

text \<open>
  The body of \<open>for i in xrange(input_end_ea - input_begin_ea)\<close>, over the indices that
  are left, with the list \<open>data\<close> built so far.
\<close>

fun inject_bytes :: "int \<Rightarrow> nat list \<Rightarrow> val list \<Rightarrow> mstate \<Rightarrow> val list \<times> mstate" where
  "inject_bytes input_begin_ea [] data st = (data, st)"
| "inject_bytes input_begin_ea (i # rest) data st =
     (let (input_byte, st1) = new_symbolic_value st 8 (''MCTEST_INPUT_'' @ str_nat i);
          data1 = data @ [input_byte];
          st2 = write_int st1 (input_begin_ea + int i) input_byte 8
      in inject_bytes input_begin_ea rest data1 st2)"

text \<open>\<open>xrange(n)\<close> is empty for \<open>n \<le> 0\<close>, as \<open>[0..<nat n]\<close> is.\<close>

definition make_symbolic_input :: "mstate \<Rightarrow> int \<Rightarrow> int \<Rightarrow> val list \<times> mstate" where
  "make_symbolic_input state input_begin_ea input_end_ea =
     inject_bytes input_begin_ea [0 ..< nat (input_end_ea - input_begin_ea)] [] state"




subsection \<open>Running the tests (lines 214-268)\<close>

text \<open>
  \<open>apis\<close> is the dictionary from the names of the primitives to their addresses;
  \<open>apis[k]\<close> raises \<open>KeyError\<close> for a name it does not have. These are the names whose
  addresses \<open>do_run_test\<close> hooks, in its order.
\<close>

definition hooked_apis :: "string list" where
  "hooked_apis = [''IsSymbolicUInt'', ''Assume'', ''Pass'', ''Fail'', ''SoftFail'', ''Abandon'',
                  ''Log'', ''StreamInt'', ''StreamFloat'', ''StreamString'', ''LogStream'']"

text \<open>
  \<open>do_run_test(state, apis, test)\<close> (lines 214-240) returns nothing; what it leaves
  behind are the events of \<open>done_test\<close>, called for every termination that the
  exploration fires, and the exception it ends with, if any. The hooks run inside the
  engine's exploration.
\<close>

definition do_run_test ::
  "engine \<Rightarrow> mstate \<Rightarrow> (string \<Rightarrow> int option) \<Rightarrow> test_case \<Rightarrow> event list \<times> exn option" where
  "do_run_test eng state apis test =
     (case begin_test eng (state\<lparr>PC := ea test\<rparr>) test of
        Inl e \<Rightarrow> ([], Some e)
      | Inr state1 \<Rightarrow>
          (case apis ''InputBegin'' of
             None \<Rightarrow> ([], Some (KeyError ''InputBegin''))
           | Some input_begin \<Rightarrow>
               (case apis ''InputEnd'' of
                  None \<Rightarrow> ([], Some (KeyError ''InputEnd''))
                | Some input_end \<Rightarrow>
                    (let state2 = snd (make_symbolic_input state1 input_begin input_end) in
                     case find (\<lambda>k. apis k = None) hooked_apis of
                       Some k \<Rightarrow> ([], Some (KeyError k))
                     | None \<Rightarrow>
                         (let (terminated, fault) = run eng state2
                          in (concat (map (\<lambda>(state_id, reason, s). done_test s state_id reason)
                                        terminated),
                              fault))))))"

text \<open>
  \<open>run_test(state, apis, test)\<close> (lines 243-248): the bare \<open>except\<close> catches whatever
  \<open>do_run_test\<close> raises and logs it. \<open>exc_text\<close> of the engine record stands for the
  rendering of the exception's type and traceback.
\<close>

definition run_test ::
  "engine \<Rightarrow> mstate \<Rightarrow> (string \<Rightarrow> int option) \<Rightarrow> test_case \<Rightarrow> event list" where
  "run_test eng state apis test =
     (case do_run_test eng state apis test of
        (evs, None) \<Rightarrow> evs
      | (evs, Some e) \<Rightarrow> evs @ [LogError (''Uncaught exception: '' @ exc_text eng e)])"

text \<open>
  \<open>run_tests(args, state, apis)\<close> (lines 251-268). Every test is handed to the pool
  with the same \<open>state\<close> and \<open>apis\<close>, of which the worker process gets its own copy, so
  what a dispatch produces depends on its test alone. \<open>results\<close> lists the events of the
  dispatches in the order of dispatch; how the workers interleave is not modelled. After
  \<open>pool.join()\<close> the function ends the process with \<open>exit(0)\<close>.
\<close>

record run_summary =
  processes :: int
  scheduler_log :: "event list"
  results :: "event list list"
  exit_status :: int

definition run_tests ::
  "engine \<Rightarrow> int \<Rightarrow> mstate \<Rightarrow> (string \<Rightarrow> int option) \<Rightarrow> run_summary" where
  "run_tests eng num_workers state apis =
     (let tests = find_test_cases eng state in
      \<lparr> processes = max 1 num_workers,
        scheduler_log = [LogInfo (''Running '' @ str_nat (length tests) @ '' tests across ''
                                  @ str_int num_workers @ '' workers'')],
        results = map (run_test eng state apis) tests,
        exit_status = 0 \<rparr>)"

text \<open>
  An engine and an API table for concrete runs. The engine finds three tests: the first
  ends with a recorded failure, the exploration of the second sees a crash and then
  raises, the third passes. The table gives every name an address and an empty input
  range.
\<close>

definition demo_tests :: "test_case list" where
  "demo_tests = [\<lparr>name = ''Fails'', ea = 100\<rparr>, \<lparr>name = ''Faults'', ea = 200\<rparr>,
                 \<lparr>name = ''Passes'', ea = 300\<rparr>]"

definition demo_engine :: engine where
  "demo_engine = \<lparr>
     solve_one = (\<lambda>cs v. Inl (EngineError ''unsupported'')),
     solve_n = (\<lambda>cs v. Inl (EngineError ''unsupported'')),
     eval_upto = (\<lambda>cs v n. Inl (EngineError ''unsupported'')),
     begin_test = (\<lambda>st t. Inr st),
     run = (\<lambda>st.
        if PC st = 100 then ([(0, OUR_TERMINATION_REASON, st\<lparr>recorded := Some Fail\<rparr>)], None)
        else if PC st = 200 then ([(1, ''Invalid memory access'', st)], Some (EngineError ''boom''))
        else ([(2, OUR_TERMINATION_REASON, st\<lparr>recorded := Some Pass\<rparr>)], None)),
     find_test_cases = (\<lambda>st. demo_tests),
     exc_text = (\<lambda>e. ''EngineError'') \<rparr>"

definition demo_apis :: "string \<Rightarrow> int option" where
  "demo_apis = map_of (map (\<lambda>k. (k, 4096)) (''InputBegin'' # ''InputEnd'' # hooked_apis))"


text \<open>
  A stub engine for concrete runs. It knows one input: the unconstrained byte \<open>x\<close>,
  for which it answers 7, and enumerates 7 and 3. Anything else is an engine error.
\<close>

definition stub_engine :: engine where
  "stub_engine = \<lparr>
     solve_one = (\<lambda>cs v. if cs = [] \<and> v = SymV ''x'' 8 then Inr (IntV 7)
                          else Inl (EngineError ''unsupported'')),
     solve_n = (\<lambda>cs v. if cs = [] \<and> v = SymV ''x'' 8 then Inr (IntV 7)
                        else Inl (EngineError ''unsupported'')),
     eval_upto = (\<lambda>cs v n. if cs = [] \<and> v = SymV ''x'' 8 \<and> 0 < n
                            then Inr (take (nat n) [IntV 7, IntV 3])
                            else Inl (EngineError ''unsupported'')),
     begin_test = (\<lambda>st t. Inr st),
     run = (\<lambda>st. ([], None)),
     find_test_cases = (\<lambda>st. []),
     exc_text = (\<lambda>e. ''exception'') \<rparr>"

section \<open>Properties\<close>

subsection \<open>Strings\<close>

lemma str_contains_iff: "str_contains needle hay \<longleftrightarrow> (\<exists>ps ss. hay = ps @ needle @ ss)"
proof (induction hay)
  case Nil
  show ?case by auto
next
  case (Cons c cs)
  show ?case
  proof
    assume "str_contains needle (c # cs)"
    then consider "prefix needle (c # cs)" | "str_contains needle cs" by auto
    then show "\<exists>ps ss. c # cs = ps @ needle @ ss"
    proof cases
      case 1
      then obtain ss where "c # cs = needle @ ss" by (auto simp: prefix_def)
      then have "c # cs = [] @ needle @ ss" by simp
      then show ?thesis by blast
    next
      case 2
      with Cons.IH obtain ps ss where "cs = ps @ needle @ ss" by blast
      then have "c # cs = (c # ps) @ needle @ ss" by simp
      then show ?thesis by blast
    qed
  next
    assume "\<exists>ps ss. c # cs = ps @ needle @ ss"
    then obtain ps ss where eq: "c # cs = ps @ needle @ ss" by blast
    show "str_contains needle (c # cs)"
    proof (cases ps)
      case Nil
      with eq have "prefix needle (c # cs)" by (simp add: prefix_def)
      then show ?thesis by simp
    next
      case (Cons p ps')
      with eq have "cs = ps' @ needle @ ss" by simp
      with Cons.IH have "str_contains needle cs" by blast
      then show ?thesis by simp
    qed
  qed
qed

lemma str_contains_refl: "str_contains s s"
proof -
  have "s = [] @ s @ []" by simp
  then show ?thesis unfolding str_contains_iff by blast
qed

subsection \<open>Termination events\<close>

lemma tag_not_in_crash: "\<not> str_contains OUR_TERMINATION_REASON ''crash''"
  by (simp add: OUR_TERMINATION_REASON_def)

lemma done_test_tagged: "str_contains OUR_TERMINATION_REASON reason \<Longrightarrow> done_test state sid reason = [Reported state]"
  by (simp add: done_test_def)

lemma done_test_untagged:
  "\<not> str_contains OUR_TERMINATION_REASON reason \<Longrightarrow>
   done_test state sid reason =
     [LogError (''State '' @ str_int sid @ '' terminated for unknown reason: '' @ reason)]"
  by (simp add: done_test_def)

text \<open>
  C1, as the specification states it: a path that ends with another tag than the harness's
  is reported with a verdict. It fails for the reason \<open>crash\<close>: the only event is an
  error line, and \<open>mc.report()\<close> is not called.
\<close>

theorem done_test_crash_no_verdict:
  "''crash'' \<noteq> OUR_TERMINATION_REASON \<and>
   done_test st0 3 ''crash'' = [LogError ''State 3 terminated for unknown reason: crash''] \<and>
   \<not> emits_verdict (done_test st0 3 ''crash'')"
proof -
  have a: "''crash'' \<noteq> OUR_TERMINATION_REASON"
    by (simp add: OUR_TERMINATION_REASON_def)
  have "str_int 3 = ''3''"
    by code_simp
  then have b: "done_test st0 3 ''crash'' = [LogError ''State 3 terminated for unknown reason: crash'']"
    using done_test_untagged [OF tag_not_in_crash, of st0 3] by simp
  have c: "\<not> emits_verdict (done_test st0 3 ''crash'')"
    unfolding b by (simp add: emits_verdict_def)
  from a b c show ?thesis by blast
qed

text \<open>
  C1, amended: when the tag does not occur in the reason of a termination, \<open>done_test\<close>
  logs exactly one error line, which names the state and ends with the raw reason, and it
  emits no verdict: the path is reported under no outcome, so never as a pass.
\<close>

theorem done_test_unknown_reason:
  assumes "\<not> str_contains OUR_TERMINATION_REASON reason"
  shows "done_test state sid reason =
           [LogError (''State '' @ str_int sid @ '' terminated for unknown reason: '' @ reason)]
         \<and> \<not> emits_verdict (done_test state sid reason)
         \<and> Reported state \<notin> set (done_test state sid reason)"
proof -
  have eq: "done_test state sid reason =
      [LogError (''State '' @ str_int sid @ '' terminated for unknown reason: '' @ reason)]"
    using assms by (rule done_test_untagged)
  have "\<not> emits_verdict (done_test state sid reason)"
    unfolding eq by (simp add: emits_verdict_def)
  moreover have "Reported state \<notin> set (done_test state sid reason)"
    unfolding eq by simp
  ultimately show ?thesis using eq by blast
qed

theorem done_test_unknown_reason_witness:
  "done_test st0 12 ''Invalid memory access'' =
     [LogError (''State '' @ str_int 12 @ '' terminated for unknown reason: '' @ ''Invalid memory access'')]
   \<and> \<not> emits_verdict (done_test st0 12 ''Invalid memory access'')
   \<and> Reported st0 \<notin> set (done_test st0 12 ''Invalid memory access'')"
proof (rule done_test_unknown_reason)
  show "\<not> str_contains OUR_TERMINATION_REASON ''Invalid memory access''"
    by (simp add: OUR_TERMINATION_REASON_def)
qed

text \<open>
  C10: the classifier tests occurrence, not equality. Whatever stands before and after
  the tag in the reason, the termination counts as the harness's own and the state is
  reported.
\<close>

theorem done_test_tag_anywhere:
  "done_test state sid (before @ OUR_TERMINATION_REASON @ after) = [Reported state]
   \<and> emits_verdict (done_test state sid (before @ OUR_TERMINATION_REASON @ after))"
proof -
  have "str_contains OUR_TERMINATION_REASON (before @ OUR_TERMINATION_REASON @ after)"
    unfolding str_contains_iff by blast
  then have "done_test state sid (before @ OUR_TERMINATION_REASON @ after) = [Reported state]"
    by (rule done_test_tagged)
  then show ?thesis by (simp add: emits_verdict_def)
qed

theorem done_test_tag_anywhere_witness:
  "''abort: I McTest'd it (worker 2)'' \<noteq> OUR_TERMINATION_REASON \<and>
   done_test st0 5 ''abort: I McTest'd it (worker 2)'' = [Reported st0]"
proof -
  have eq: "''abort: I McTest'd it (worker 2)'' = ''abort: '' @ OUR_TERMINATION_REASON @ '' (worker 2)''"
    by (simp add: OUR_TERMINATION_REASON_def)
  have "done_test st0 5 ''abort: I McTest'd it (worker 2)'' = [Reported st0]"
    unfolding eq by (rule conjunct1 [OF done_test_tag_anywhere])
  moreover have "''abort: I McTest'd it (worker 2)'' \<noteq> OUR_TERMINATION_REASON"
    by (simp add: OUR_TERMINATION_REASON_def)
  ultimately show ?thesis by blast
qed

subsection \<open>Concretization\<close>

lemma add_constraint_eq:
  "add_constraint st e = (True, if issymbolic e then st\<lparr>constraints := constraints st @ [e]\<rparr> else st)"
  by (simp add: add_constraint_def is_symbolic_def constrain_def)

lemma concretize_int: "is_int_inst v \<Longrightarrow> concretize eng st v flag = (Inr v, st)"
  by (simp add: concretize_def)

lemma concretize_min_int: "is_int_inst v \<Longrightarrow> concretize_min eng st v flag = (Inr v, st)"
  by (simp add: concretize_min_def)

lemma concretize_char: "concretize eng st (StrV [c]) flag = (Inr (IntV (of_char c)), st)"
  by (simp add: concretize_def ord_of_char_str_def)

lemma concretize_not_char:
  "length s \<noteq> 1 \<Longrightarrow> concretize eng st (StrV s) flag = (Inl AssertionError, st)"
  by (cases s rule: list.exhaust [case_product list.exhaust])
     (auto simp: concretize_def ord_of_char_str_def split: list.splits)


text \<open>
  C5, as the specification states it: every concrete value passes through \<open>concretize\<close>
  unchanged. The one-character string \<open>A\<close> is concrete, and \<open>concretize\<close> returns the
  integer 65 for it, which Python does not hold equal to the string.
\<close>

theorem concretize_string_not_passed_through:
  "\<not> is_symbolic (StrV ''A'') \<and>
   concretize stub_engine st0 (StrV ''A'') False = (Inr (IntV 65), st0) \<and>
   py_eq (IntV 65) (StrV ''A'') = BoolV False"
proof -
  have "(of_char CHR ''A'' :: int) = 65" by simp
  then have "concretize stub_engine st0 (StrV ''A'') False = (Inr (IntV 65), st0)"
    using concretize_char [of stub_engine st0 "CHR ''A''" False] by simp
  then show ?thesis by (simp add: is_symbolic_def py_eq_def)
qed

text \<open>
  C5, amended: a Python integer (\<open>int\<close>, \<open>long\<close>, and so \<open>bool\<close>) passes through
  \<open>concretize\<close> and \<open>concretize_min\<close> unchanged, whatever the flag, and the state is left
  as it was. A concrete string does not pass through: for a string of one character
  \<open>concretize\<close> returns the code of the character, and for a string of any other length
  it fails its assertion; the state is left as it was in both cases.
\<close>

theorem concrete_int_pass_through:
  assumes "is_int_inst v"
  shows "concretize eng st v flag = (Inr v, st)
         \<and> concretize_min eng st v flag = (Inr v, st)
         \<and> concretize eng st (StrV [c]) flag = (Inr (IntV (of_char c)), st)
         \<and> (length s \<noteq> 1 \<longrightarrow> concretize eng st (StrV s) flag = (Inl AssertionError, st))"
proof -
  have "concretize eng st (StrV s) flag = (Inl AssertionError, st)" if "length s \<noteq> 1"
    using that by (rule concretize_not_char)
  with assms concretize_int concretize_min_int concretize_char show ?thesis by blast
qed

theorem concrete_int_pass_through_witness:
  "concretize stub_engine st0 (IntV 42) True = (Inr (IntV 42), st0)
   \<and> concretize_min stub_engine st0 (IntV 42) True = (Inr (IntV 42), st0)
   \<and> concretize stub_engine st0 (StrV [CHR ''A'']) True = (Inr (IntV (of_char CHR ''A'')), st0)
   \<and> concretize stub_engine st0 (StrV ''AB'') True = (Inl AssertionError, st0)
   \<and> concretize stub_engine st0 (StrV []) True = (Inl AssertionError, st0)"
proof -
  have i: "is_int_inst (IntV 42)" by simp
  note two = concrete_int_pass_through [OF i, of stub_engine st0 True "CHR ''A''" "''AB''"]
  note none = concrete_int_pass_through [OF i, of stub_engine st0 True "CHR ''A''" "[]"]
  have "length ''AB'' \<noteq> 1" by simp
  with two have a: "concretize stub_engine st0 (StrV ''AB'') True = (Inl AssertionError, st0)"
    by blast
  have "length ([] :: string) \<noteq> 1" by simp
  with none have b: "concretize stub_engine st0 (StrV []) True = (Inl AssertionError, st0)"
    by blast
  from two a b show ?thesis by blast
qed







subsection \<open>Constraints and enumeration\<close>

text \<open>
  C7: \<open>add_constraint\<close> leaves the state as it is for an expression that is not symbolic
  and appends a symbolic one to the constraints; it returns \<open>True\<close> either way. The
  Assume primitive does the same, so it changes the constraints exactly when its argument
  is symbolic.
\<close>

theorem add_constraint_symbolic_only:
  "add_constraint st e
     = (True, if is_symbolic e then st\<lparr>constraints := constraints st @ [e]\<rparr> else st)
   \<and> hook_Assume st e = (if is_symbolic e then st\<lparr>constraints := constraints st @ [e]\<rparr> else st)
   \<and> (constraints (hook_Assume st e) \<noteq> constraints st \<longleftrightarrow> is_symbolic e)"
  by (simp add: add_constraint_def hook_Assume_def api_assume_def constrain_def)





subsection \<open>The outcome primitives\<close>

text \<open>
  C3: the Pass, Fail and Abandon primitives record their outcome and raise the
  termination request that carries the harness's tag; SoftFail records its outcome and
  returns, so the path goes on, and a Pass or a Fail that follows replaces the outcome.
\<close>

theorem outcome_primitives:
  "hook_Pass st = (Inl (TerminateState OUR_TERMINATION_REASON False), st\<lparr>recorded := Some Pass\<rparr>)
   \<and> hook_Fail st = (Inl (TerminateState OUR_TERMINATION_REASON False), st\<lparr>recorded := Some Fail\<rparr>)
   \<and> hook_Abandon st r = (Inl (TerminateState OUR_TERMINATION_REASON False),
                          st\<lparr>abandon_reason := Some r, recorded := Some Abandon\<rparr>)
   \<and> hook_SoftFail st = (Inr (), st\<lparr>recorded := Some SoftFail\<rparr>)
   \<and> recorded (snd (hook_Pass (snd (hook_SoftFail st)))) = Some Pass
   \<and> recorded (snd (hook_Fail (snd (hook_SoftFail st)))) = Some Fail"
  by (simp add: hook_Pass_def hook_Fail_def hook_Abandon_def hook_SoftFail_def
      api_pass_def api_fail_def api_abandon_def api_soft_fail_def
      pass_test_def fail_test_def abandon_test_def
      McTest_pass_test_def McTest_fail_test_def McTest_abandon_test_def)

subsection \<open>Decimal rendering is injective\<close>







subsection \<open>The input injector\<close>














subsection \<open>The scheduler\<close>

lemma run_test_fault:
  "snd (do_run_test eng st apis t) = Some e \<Longrightarrow>
   run_test eng st apis t
     = fst (do_run_test eng st apis t) @ [LogError (''Uncaught exception: '' @ exc_text eng e)]"
  by (cases "do_run_test eng st apis t") (simp add: run_test_def)

lemma run_test_no_fault:
  "snd (do_run_test eng st apis t) = None \<Longrightarrow> run_test eng st apis t = fst (do_run_test eng st apis t)"
  by (cases "do_run_test eng st apis t") (simp add: run_test_def)

lemma results_run_tests:
  "results (run_tests eng n st apis) = map (run_test eng st apis) (find_test_cases eng st)"
  by (simp add: run_tests_def Let_def)

lemma demo_apis_complete:
  "demo_apis ''InputBegin'' = Some 4096" "demo_apis ''InputEnd'' = Some 4096"
  "find (\<lambda>k. demo_apis k = None) hooked_apis = None"
  by (simp_all add: demo_apis_def hooked_apis_def)

lemma demo_do_run_test:
  "do_run_test demo_engine st0 demo_apis t = (let st = st0\<lparr>PC := ea t\<rparr> in
     if ea t = 100 then ([Reported (st\<lparr>recorded := Some Fail\<rparr>)], None)
     else if ea t = 200 then
       ([LogError (''State '' @ str_int 1 @ '' terminated for unknown reason: Invalid memory access'')],
        Some (EngineError ''boom''))
     else ([Reported (st\<lparr>recorded := Some Pass\<rparr>)], None))"
proof -
  have tagged: "str_contains OUR_TERMINATION_REASON OUR_TERMINATION_REASON"
    by (rule str_contains_refl)
  have untagged: "\<not> str_contains OUR_TERMINATION_REASON ''Invalid memory access''"
    by (simp add: OUR_TERMINATION_REASON_def)
  have input: "snd (make_symbolic_input (st0\<lparr>PC := ea t\<rparr>) 4096 4096) = st0\<lparr>PC := ea t\<rparr>"
    by (simp add: make_symbolic_input_def)
  show ?thesis
    by (simp add: do_run_test_def demo_apis_complete input Let_def demo_engine_def
        done_test_tagged [OF tagged] done_test_untagged [OF untagged])
qed

lemma demo_results:
  "results (run_tests demo_engine n st0 demo_apis) =
     [[Reported (st0\<lparr>PC := 100, recorded := Some Fail\<rparr>)],
      [LogError (''State '' @ str_int 1 @ '' terminated for unknown reason: Invalid memory access''),
       LogError ''Uncaught exception: EngineError''],
      [Reported (st0\<lparr>PC := 300, recorded := Some Pass\<rparr>)]]"
proof -
  have "find_test_cases demo_engine st0 = demo_tests" by (simp add: demo_engine_def)
  moreover have "exc_text demo_engine (EngineError ''boom'') = ''EngineError''"
    by (simp add: demo_engine_def)
  ultimately show ?thesis
    by (simp add: results_run_tests demo_tests_def run_test_def demo_do_run_test)
qed

text \<open>
  C2, as the specification states it: the exit status is 0 only if every test's outcome
  is Pass or SoftFail. In the run below the first test is reported with the outcome Fail,
  and the exit status is 0.
\<close>

theorem exit_status_zero_with_failed_test:
  "results (run_tests demo_engine 1 st0 demo_apis) ! 0
     = [Reported (st0\<lparr>PC := 100, recorded := Some Fail\<rparr>)]
   \<and> recorded (st0\<lparr>PC := 100, recorded := Some Fail\<rparr>) = Some Fail
   \<and> exit_status (run_tests demo_engine 1 st0 demo_apis) = 0"
  by (simp add: demo_results) (simp add: run_tests_def Let_def)

text \<open>
  C2, amended: when \<open>run_tests\<close> has dispatched every test and the pool has finished,
  it ends the process with status 0, whatever the tests' outcomes were.
\<close>

theorem exit_status_always_zero:
  "exit_status (run_tests eng num_workers state apis) = 0"
  by (simp add: run_tests_def Let_def)

text \<open>
  C4: \<open>run_test\<close> raises nothing. When the exploration of a test ends with an exception,
  the events up to that point stay and one error line for the exception follows them;
  otherwise the events are those of the exploration. \<open>run_tests\<close> has one result for each
  test that was found, in order, and the result at a position is what \<open>run_test\<close> gives
  for the test at that position alone: a fault in one dispatch changes no other result.
\<close>

theorem worker_fault_is_contained:
  "(snd (do_run_test eng st apis t) = Some e \<longrightarrow>
      run_test eng st apis t
        = fst (do_run_test eng st apis t) @ [LogError (''Uncaught exception: '' @ exc_text eng e)])
   \<and> (snd (do_run_test eng st apis t) = None \<longrightarrow>
      run_test eng st apis t = fst (do_run_test eng st apis t))
   \<and> length (results (run_tests eng n st apis)) = length (find_test_cases eng st)
   \<and> (i < length (find_test_cases eng st) \<longrightarrow>
      results (run_tests eng n st apis) ! i = run_test eng st apis (find_test_cases eng st ! i))"
proof (intro conjI impI)
  assume "snd (do_run_test eng st apis t) = Some e"
  then show "run_test eng st apis t
      = fst (do_run_test eng st apis t) @ [LogError (''Uncaught exception: '' @ exc_text eng e)]"
    by (rule run_test_fault)
next
  assume "snd (do_run_test eng st apis t) = None"
  then show "run_test eng st apis t = fst (do_run_test eng st apis t)"
    by (rule run_test_no_fault)
next
  show "length (results (run_tests eng n st apis)) = length (find_test_cases eng st)"
    by (simp add: results_run_tests)
next
  assume "i < length (find_test_cases eng st)"
  then show "results (run_tests eng n st apis) ! i = run_test eng st apis (find_test_cases eng st ! i)"
    by (simp add: results_run_tests)
qed

theorem worker_fault_is_contained_witness:
  "snd (do_run_test demo_engine st0 demo_apis (demo_tests ! 1)) = Some (EngineError ''boom'')
   \<and> run_test demo_engine st0 demo_apis (demo_tests ! 1)
       = fst (do_run_test demo_engine st0 demo_apis (demo_tests ! 1))
         @ [LogError (''Uncaught exception: '' @ exc_text demo_engine (EngineError ''boom''))]
   \<and> run_test demo_engine st0 demo_apis (demo_tests ! 2)
       = fst (do_run_test demo_engine st0 demo_apis (demo_tests ! 2))
   \<and> length (results (run_tests demo_engine 2 st0 demo_apis)) = 3
   \<and> results (run_tests demo_engine 2 st0 demo_apis) ! 2
       = run_test demo_engine st0 demo_apis (demo_tests ! 2)
   \<and> results (run_tests demo_engine 2 st0 demo_apis) ! 2
       = [Reported (st0\<lparr>PC := 300, recorded := Some Pass\<rparr>)]"
proof -
  have found: "find_test_cases demo_engine st0 = demo_tests" by (simp add: demo_engine_def)
  have len: "length demo_tests = 3" by (simp add: demo_tests_def)
  have fault: "snd (do_run_test demo_engine st0 demo_apis (demo_tests ! 1)) = Some (EngineError ''boom'')"
    by (simp add: demo_do_run_test demo_tests_def)
  have fine: "snd (do_run_test demo_engine st0 demo_apis (demo_tests ! 2)) = None"
    by (simp add: demo_do_run_test demo_tests_def)
  note a = worker_fault_is_contained [of demo_engine st0 demo_apis "demo_tests ! 1" "EngineError ''boom''" 2 2]
  note b = worker_fault_is_contained [of demo_engine st0 demo_apis "demo_tests ! 2" "EngineError ''boom''" 2 2]
  from a fault have c1: "run_test demo_engine st0 demo_apis (demo_tests ! 1)
       = fst (do_run_test demo_engine st0 demo_apis (demo_tests ! 1))
         @ [LogError (''Uncaught exception: '' @ exc_text demo_engine (EngineError ''boom''))]"
    by blast
  from b fine have c2: "run_test demo_engine st0 demo_apis (demo_tests ! 2)
       = fst (do_run_test demo_engine st0 demo_apis (demo_tests ! 2))"
    by blast
  from b have c3: "length (results (run_tests demo_engine 2 st0 demo_apis)) = 3"
    by (simp add: found len)
  from b have c4: "results (run_tests demo_engine 2 st0 demo_apis) ! 2
       = run_test demo_engine st0 demo_apis (demo_tests ! 2)"
    by (simp add: found len)
  have c5: "results (run_tests demo_engine 2 st0 demo_apis) ! 2
       = [Reported (st0\<lparr>PC := 300, recorded := Some Pass\<rparr>)]"
    by (simp add: demo_results)
  from fault c1 c2 c3 c4 c5 show ?thesis by blast
qed

end
